theory Spec2Isabelle
  imports Complex_Main "HOL-Library.Word" "HOL-Library.Log_Nat"
begin

section \<open>ArduSub sensors.cpp: barometer and rangefinder sampling\<close>

text \<open>
  A shallow embedding of \<^verbatim>\<open>ArduSub/sensors.cpp\<close>. The member functions of \<^verbatim>\<open>Sub\<close>
  become functions from the state they touch and the values the drivers report in
  that cycle to the new state and the list of calls made on the external objects.

  Conventions.
  \<^item> \<^verbatim>\<open>uint32_t\<close> is \<open>32 word\<close>: subtraction wraps, comparison is unsigned.
  \<^item> \<^verbatim>\<open>int16_t\<close> is \<open>16 word\<close>, read through \<open>sint\<close>.
  \<^item> A \<^verbatim>\<open>float\<close> value is the \<open>real\<close> number it denotes; infinities and NaN are
    outside the model. The product of line 46, whose integer part is stored, is
    rounded to binary32 (\<open>float_mul\<close>). The subtraction of line 67 and the arithmetic
    inside the filter class, which is not in sensors.cpp, are the exact ones.
  \<^item> The preprocessor symbols the file tests or uses are the fields of a
    configuration record, since their definitions are in headers.
\<close>

subsection \<open>Configuration\<close>

record build_config =
  RANGEFINDER_ENABLED :: bool
    \<comment> \<open>the test \<^verbatim>\<open>RANGEFINDER_ENABLED == ENABLED\<close>\<close>
  RANGEFINDER_TILT_CORRECTION :: bool
    \<comment> \<open>the test \<^verbatim>\<open>RANGEFINDER_TILT_CORRECTION == ENABLED\<close>\<close>
  RANGEFINDER_HEALTH_MAX :: nat
  RANGEFINDER_TIMEOUT_MS :: "32 word"
  RANGEFINDER_WPNAV_FILT_HZ :: real

subsection \<open>Barometer\<close>

text \<open>
  What the barometer driver answers after \<^verbatim>\<open>barometer.update()\<close>: the altitude, in the
  unit and numeric type of \<^verbatim>\<open>get_altitude()\<close> (the source only compares it with 0), and
  the health of each sensor instance. \<open>read_barometer\<close> returns the new state and the
  calls it made on the barometer, in order.
\<close>

record AP_Baro =
  get_altitude :: real
  healthy :: "nat \<Rightarrow> bool"

datatype baro_call = Baro_update | Baro_update_calibration

record baro_state =
  depth_sensor_present :: bool
  depth_sensor_idx :: nat
  sensor_health_depth :: bool

definition read_barometer :: "AP_Baro \<Rightarrow> baro_state \<Rightarrow> baro_state \<times> baro_call list" where
  "read_barometer barometer s =
     (let calls = [Baro_update] @
                  (if get_altitude barometer > 0 then [Baro_update_calibration] else []);
          s' = (if depth_sensor_present s
                then s\<lparr>sensor_health_depth := healthy barometer (depth_sensor_idx s)\<rparr>
                else s)
      in (s', calls))"

subsection \<open>Rangefinder driver, filter and state\<close>

text \<open>
  Modelled from the spec: the enumeration \<^verbatim>\<open>RangeFinder::Status\<close> is declared outside
  sensors.cpp, which names only \<^verbatim>\<open>Good\<close>. The spec lists Good, NoData and OutOfRange
  and leaves the rest open; any further value is \<open>OtherStatus n\<close>.
\<close>

datatype RangeFinder_Status = Good | NoData | OutOfRange | OtherStatus nat

text \<open>
  The answers of the rangefinder driver for \<^verbatim>\<open>ROTATION_PITCH_270\<close> after
  \<^verbatim>\<open>rangefinder.update()\<close>. The distance is the value as it arrives in the
  \<^verbatim>\<open>int16_t temp_alt\<close>; the two bounds are the values as stored in the state.
\<close>

record RangeFinder =
  status_orient :: RangeFinder_Status
  range_valid_count_orient :: nat
  signal_quality_pct :: int
  distance_cm_orient :: "16 word"
  min_distance_cm_orient :: "16 word"
  max_distance_cm_orient :: "16 word"
  has_orientation :: bool

text \<open>
  Modelled from the spec: the class \<^verbatim>\<open>LowPassFilterFloat\<close> of \<^verbatim>\<open>alt_cm_filt\<close> is not in
  sensors.cpp, which only calls its methods \<^verbatim>\<open>set_cutoff_frequency\<close>, \<^verbatim>\<open>reset\<close>,
  \<^verbatim>\<open>apply\<close> and \<^verbatim>\<open>get\<close>. The spec gives the filter one internal value; the cutoff
  frequency set at initialisation is kept beside it.
\<close>

record LowPassFilterFloat =
  lpf_output :: real
  lpf_cutoff_freq :: real

text \<open>
  Modelled from the spec: \<^verbatim>\<open>set_cutoff_frequency(hz)\<close> is missing from sensors.cpp; it
  stores the frequency and leaves the internal value alone.
\<close>

definition lpf_set_cutoff_frequency :: "LowPassFilterFloat \<Rightarrow> real \<Rightarrow> LowPassFilterFloat" where
  "lpf_set_cutoff_frequency f hz = f\<lparr>lpf_cutoff_freq := hz\<rparr>"

text \<open>
  Modelled from the spec: \<^verbatim>\<open>reset(v)\<close> is missing from sensors.cpp; the spec has it set
  the filter's internal value directly to \<open>v\<close>, discarding the history.
\<close>

definition lpf_reset :: "LowPassFilterFloat \<Rightarrow> real \<Rightarrow> LowPassFilterFloat" where
  "lpf_reset f v = f\<lparr>lpf_output := v\<rparr>"

text \<open>
  Modelled from the spec: \<^verbatim>\<open>apply(v, g)\<close> is missing from sensors.cpp; the spec has it
  take one step of exponential smoothing towards \<open>v\<close> with a fixed gain, new = old +
  0.05 * (v - old), 0.05 being the second argument of the call.
\<close>

definition lpf_apply :: "LowPassFilterFloat \<Rightarrow> real \<Rightarrow> real \<Rightarrow> LowPassFilterFloat" where
  "lpf_apply f v g = f\<lparr>lpf_output := lpf_output f + g * (v - lpf_output f)\<rparr>"

text \<open>
  Modelled from the spec: \<^verbatim>\<open>get()\<close> is missing from sensors.cpp; it reads the filter's
  internal value.
\<close>

definition lpf_get :: "LowPassFilterFloat \<Rightarrow> real" where
  "lpf_get f = lpf_output f"

text \<open>
  Modelled from the spec: the struct \<^verbatim>\<open>rangefinder_state\<close> is declared in Sub.h. Its
  fields are the ones sensors.cpp reads and writes; the three distances have the
  width of \<^verbatim>\<open>temp_alt\<close>, the timestamp the width of \<^verbatim>\<open>now\<close>.
\<close>

record rangefinder_state =
  enabled :: bool
  alt_healthy :: bool
  alt_cm :: "16 word"
  min_cm :: "16 word"
  max_cm :: "16 word"
  last_healthy_ms :: "32 word"
  alt_cm_filt :: LowPassFilterFloat

text \<open>
  The other values one cycle reads: the element \<^verbatim>\<open>c.z\<close> of the body-to-NED rotation,
  the clock, the vertical position and the answer of \<^verbatim>\<open>wp_nav.rangefinder_used()\<close>.
\<close>

record cycle_inputs =
  rangefinder :: RangeFinder
  rotation_body_to_ned_c_z :: real
  millis :: "32 word"
  position_z_up_cm :: real
  wp_nav_rangefinder_used :: bool

text \<open>The calls on the two navigation libraries, with their three arguments.\<close>

datatype nav_call =
  Wp_nav_set_rangefinder_terrain_offset bool bool real
| Circle_nav_set_rangefinder_terrain_offset bool bool real

subsection \<open>binary32 arithmetic\<close>

text \<open>
  A finite binary32 number is an integer of magnitude below \<open>2 ^ 24\<close> times a power of
  two that is at least \<open>2 ^ - 149\<close>. \<open>binary32_exponent x\<close> is the exponent of the
  binade of \<open>x\<close> (at least -126, where the subnormal numbers begin), and
  \<open>round_binary32\<close> rounds the magnitude to the nearest multiple of the spacing of that
  binade, ties to the even multiple, as the default rounding mode of IEEE 754 does.
  Overflow to infinity is outside the model. \<open>float_mul\<close> is the multiplication of two
  \<^verbatim>\<open>float\<close> values, and \<open>float_0_707\<close> is the value of the literal \<^verbatim>\<open>0.707f\<close>.
\<close>

definition pow2 :: "int \<Rightarrow> real" where
  "pow2 e = (if 0 \<le> e then 2 ^ nat e else 1 / 2 ^ nat (- e))"

definition round_half_even :: "real \<Rightarrow> int" where
  "round_half_even x =
     (let n = \<lfloor>x\<rfloor>; d = x - of_int n
      in if d < 1 / 2 then n
         else if 1 / 2 < d then n + 1
         else if even n then n else n + 1)"

definition binary32_exponent :: "real \<Rightarrow> int" where
  "binary32_exponent x = max (bitlen \<lfloor>\<bar>x\<bar> * 2 ^ 126\<rfloor> - 127) (- 126)"

definition round_binary32 :: "real \<Rightarrow> real" where
  "round_binary32 x =
     (let q = binary32_exponent x - 23
      in sgn x * (of_int (round_half_even (\<bar>x\<bar> / pow2 q)) * pow2 q))"

definition float_mul :: "real \<Rightarrow> real \<Rightarrow> real" where
  "float_mul a b = round_binary32 (a * b)"

definition float_0_707 :: real where
  "float_0_707 = 2965373 / 4194304"

subsection \<open>Conversion of a float to \<^verbatim>\<open>int16_t\<close>\<close>

text \<open>
  The assignment of a \<^verbatim>\<open>float\<close> to \<^verbatim>\<open>int16_t temp_alt\<close> drops the fractional part
  (rounds towards zero). For a value beyond the range of \<^verbatim>\<open>int16_t\<close> C++ leaves the
  result undefined; the model then keeps the low 16 bits. With \<^verbatim>\<open>c.z\<close> at most 1 the
  product stays in range (lemma \<open>tilt_product_in_range\<close> below).
\<close>

definition trunc_toward_zero :: "real \<Rightarrow> int" where
  "trunc_toward_zero x = (if 0 \<le> x then \<lfloor>x\<rfloor> else \<lceil>x\<rceil>)"

definition float_to_int16 :: "real \<Rightarrow> 16 word" where
  "float_to_int16 x = word_of_int (trunc_toward_zero x)"

subsection \<open>init_rangefinder, read_rangefinder, rangefinder_alt_ok\<close>

definition init_rangefinder :: "build_config \<Rightarrow> RangeFinder \<Rightarrow> rangefinder_state \<Rightarrow> rangefinder_state" where
  "init_rangefinder cfg rf s =
     (if RANGEFINDER_ENABLED cfg
      then s\<lparr>alt_cm_filt := lpf_set_cutoff_frequency (alt_cm_filt s) (RANGEFINDER_WPNAV_FILT_HZ cfg),
             enabled := has_orientation rf\<rparr>
      else s)"

text \<open>
  Lines 42 to 47: the raw distance, corrected for the angle of the rangefinder. The
  conversion \<^verbatim>\<open>(float)temp_alt\<close> is exact, \<open>c_z\<close> is the value of the \<^verbatim>\<open>float\<close> \<^verbatim>\<open>c.z\<close>,
  \<^verbatim>\<open>MAX\<close> selects one of its two arguments, and the product is the binary32 one.
\<close>

definition tilt_correction :: "build_config \<Rightarrow> 16 word \<Rightarrow> real \<Rightarrow> 16 word" where
  "tilt_correction cfg temp_alt c_z =
     (if RANGEFINDER_TILT_CORRECTION cfg
      then float_to_int16 (float_mul (real_of_int (sint temp_alt)) (max float_0_707 c_z))
      else temp_alt)"

text \<open>Lines 37 to 40: the health of this cycle's sample.\<close>

definition health_evaluation :: "build_config \<Rightarrow> RangeFinder \<Rightarrow> bool" where
  "health_evaluation cfg rf =
     (let signal_quality_pct = signal_quality_pct rf
      in status_orient rf = Good \<and>
         RANGEFINDER_HEALTH_MAX cfg \<le> range_valid_count_orient rf \<and>
         (signal_quality_pct = - 1 \<or> 90 < signal_quality_pct))"

definition read_rangefinder ::
  "build_config \<Rightarrow> cycle_inputs \<Rightarrow> rangefinder_state \<Rightarrow> rangefinder_state \<times> nav_call list" where
  "read_rangefinder cfg inp s =
     (if RANGEFINDER_ENABLED cfg then
        let rf = rangefinder inp;
            s1 = s\<lparr>alt_healthy := health_evaluation cfg rf\<rparr>;
            temp_alt = tilt_correction cfg (distance_cm_orient rf) (rotation_body_to_ned_c_z inp);
            s2 = s1\<lparr>alt_cm := temp_alt,
                    min_cm := min_distance_cm_orient rf,
                    max_cm := max_distance_cm_orient rf\<rparr>;
            now = millis inp;
            s3 = (if alt_healthy s2 then
                    (if RANGEFINDER_TIMEOUT_MS cfg < now - last_healthy_ms s2
                     then s2\<lparr>alt_cm_filt := lpf_reset (alt_cm_filt s2) (real_of_int (sint (alt_cm s2)))\<rparr>
                     else s2\<lparr>alt_cm_filt := lpf_apply (alt_cm_filt s2) (real_of_int (sint (alt_cm s2))) (5 / 100)\<rparr>)
                    \<lparr>last_healthy_ms := now\<rparr>
                  else s2);
            terrain_offset_cm = position_z_up_cm inp - lpf_get (alt_cm_filt s3)
        in (s3,
            [Wp_nav_set_rangefinder_terrain_offset (enabled s3) (alt_healthy s3) terrain_offset_cm,
             Circle_nav_set_rangefinder_terrain_offset
               (enabled s3 \<and> wp_nav_rangefinder_used inp) (alt_healthy s3) terrain_offset_cm])
      else (s\<lparr>enabled := False, alt_healthy := False, alt_cm := 0\<rparr>, []))"

definition rangefinder_alt_ok :: "build_config \<Rightarrow> 32 word \<Rightarrow> rangefinder_state \<Rightarrow> bool" where
  "rangefinder_alt_ok cfg now s =
     (enabled s \<and> alt_healthy s \<and> now - last_healthy_ms s < RANGEFINDER_TIMEOUT_MS cfg)"

subsection \<open>Example values\<close>

text \<open>
  A configuration with the usual thresholds (ten valid samples, one second) and one
  cycle of the spec's scenario: 500 cm, status Good, count 10, quality 95, level vehicle.
\<close>

definition example_config :: build_config where
  "example_config =
     \<lparr>RANGEFINDER_ENABLED = True, RANGEFINDER_TILT_CORRECTION = True,
      RANGEFINDER_HEALTH_MAX = 10, RANGEFINDER_TIMEOUT_MS = 1000,
      RANGEFINDER_WPNAV_FILT_HZ = 1 / 4\<rparr>"

definition example_rangefinder :: RangeFinder where
  "example_rangefinder =
     \<lparr>status_orient = Good, range_valid_count_orient = 10, signal_quality_pct = 95,
      distance_cm_orient = 500, min_distance_cm_orient = 20, max_distance_cm_orient = 5000,
      has_orientation = True\<rparr>"

definition example_inputs :: cycle_inputs where
  "example_inputs =
     \<lparr>rangefinder = example_rangefinder, rotation_body_to_ned_c_z = 1, millis = 3000,
      position_z_up_cm = - 1000, wp_nav_rangefinder_used = True\<rparr>"

definition example_state :: rangefinder_state where
  "example_state =
     \<lparr>enabled = True, alt_healthy = False, alt_cm = 0, min_cm = 0, max_cm = 0,
      last_healthy_ms = 1000,
      alt_cm_filt = \<lparr>lpf_output = 100, lpf_cutoff_freq = 1 / 4\<rparr>\<rparr>"

text \<open>A barometer at the surface (altitude 0) and a vehicle with a depth sensor.\<close>

definition example_barometer :: AP_Baro where
  "example_barometer = \<lparr>get_altitude = 0, healthy = (\<lambda>i. True)\<rparr>"

definition example_baro_state :: baro_state where
  "example_baro_state =
     \<lparr>depth_sensor_present = True, depth_sensor_idx = 0, sensor_health_depth = False\<rparr>"

section \<open>Properties\<close>

subsection \<open>Auxiliary facts\<close>

lemma sint16_word_of_int:
  "- 32768 \<le> k \<Longrightarrow> k < 32768 \<Longrightarrow> sint (word_of_int k :: 16 word) = k"
  by (simp add: signed_of_int signed_take_bit_int_eq_self)

lemma sint16_bounds: "- 32768 \<le> sint (w :: 16 word) \<and> sint w < 32768"
  using sint_ge [of w] sint_lt [of w] by simp

lemma health_evaluation_iff:
  "health_evaluation cfg rf =
     (status_orient rf = Good \<and>
      RANGEFINDER_HEALTH_MAX cfg \<le> range_valid_count_orient rf \<and>
      (signal_quality_pct rf = - 1 \<or> 90 < signal_quality_pct rf))"
  by (simp add: health_evaluation_def Let_def)

lemma rr_alt_healthy:
  "RANGEFINDER_ENABLED cfg \<Longrightarrow>
   alt_healthy (fst (read_rangefinder cfg inp s)) = health_evaluation cfg (rangefinder inp)"
  by (simp add: read_rangefinder_def Let_def)

lemma rr_alt_healthy_compiled_in:
  "alt_healthy (fst (read_rangefinder cfg inp s)) \<Longrightarrow> RANGEFINDER_ENABLED cfg"
  by (cases "RANGEFINDER_ENABLED cfg") (simp_all add: read_rangefinder_def)

lemma rr_distances:
  "RANGEFINDER_ENABLED cfg \<Longrightarrow>
   alt_cm (fst (read_rangefinder cfg inp s)) =
     tilt_correction cfg (distance_cm_orient (rangefinder inp)) (rotation_body_to_ned_c_z inp) \<and>
   min_cm (fst (read_rangefinder cfg inp s)) = min_distance_cm_orient (rangefinder inp) \<and>
   max_cm (fst (read_rangefinder cfg inp s)) = max_distance_cm_orient (rangefinder inp)"
  by (simp add: read_rangefinder_def Let_def)

lemma rr_enabled:
  "RANGEFINDER_ENABLED cfg \<Longrightarrow> enabled (fst (read_rangefinder cfg inp s)) = enabled s"
  by (simp add: read_rangefinder_def Let_def)

lemma rr_compiled_out:
  "\<not> RANGEFINDER_ENABLED cfg \<Longrightarrow>
   read_rangefinder cfg inp s = (s\<lparr>enabled := False, alt_healthy := False, alt_cm := 0\<rparr>, [])"
  by (simp add: read_rangefinder_def)

lemma rr_unhealthy_frame:
  assumes "\<not> alt_healthy (fst (read_rangefinder cfg inp s))"
  shows "alt_cm_filt (fst (read_rangefinder cfg inp s)) = alt_cm_filt s \<and>
         last_healthy_ms (fst (read_rangefinder cfg inp s)) = last_healthy_ms s"
proof (cases "RANGEFINDER_ENABLED cfg")
  case True
  with assms have "\<not> health_evaluation cfg (rangefinder inp)"
    by (simp add: rr_alt_healthy)
  with True show ?thesis by (simp add: read_rangefinder_def Let_def)
next
  case False
  then show ?thesis by (simp add: rr_compiled_out)
qed

lemma rr_filter_healthy:
  assumes "alt_healthy (fst (read_rangefinder cfg inp s))"
  shows "alt_cm_filt (fst (read_rangefinder cfg inp s)) =
     (if RANGEFINDER_TIMEOUT_MS cfg < millis inp - last_healthy_ms s
      then lpf_reset (alt_cm_filt s)
             (real_of_int (sint (alt_cm (fst (read_rangefinder cfg inp s)))))
      else lpf_apply (alt_cm_filt s)
             (real_of_int (sint (alt_cm (fst (read_rangefinder cfg inp s))))) (5 / 100)) \<and>
   last_healthy_ms (fst (read_rangefinder cfg inp s)) = millis inp"
proof -
  have en: "RANGEFINDER_ENABLED cfg" using assms by (rule rr_alt_healthy_compiled_in)
  with assms have "health_evaluation cfg (rangefinder inp)" by (simp add: rr_alt_healthy)
  with en show ?thesis by (simp add: read_rangefinder_def Let_def)
qed

lemma rr_published:
  "RANGEFINDER_ENABLED cfg \<Longrightarrow>
   snd (read_rangefinder cfg inp s) =
     [Wp_nav_set_rangefinder_terrain_offset (enabled s)
        (alt_healthy (fst (read_rangefinder cfg inp s)))
        (position_z_up_cm inp - lpf_get (alt_cm_filt (fst (read_rangefinder cfg inp s)))),
      Circle_nav_set_rangefinder_terrain_offset (enabled s \<and> wp_nav_rangefinder_used inp)
        (alt_healthy (fst (read_rangefinder cfg inp s)))
        (position_z_up_cm inp - lpf_get (alt_cm_filt (fst (read_rangefinder cfg inp s))))]"
  by (simp add: read_rangefinder_def Let_def)

lemma trunc_toward_zero_mono:
  assumes "x \<le> y"
  shows "trunc_toward_zero x \<le> trunc_toward_zero y"
proof (cases "0 \<le> x")
  case True
  with assms show ?thesis by (simp add: trunc_toward_zero_def floor_mono)
next
  case False
  show ?thesis
  proof (cases "0 \<le> y")
    case True
    have "\<lceil>x\<rceil> \<le> 0" using False by (simp add: ceiling_le_iff)
    also have "0 \<le> \<lfloor>y\<rfloor>" using True by simp
    finally have "\<lceil>x\<rceil> \<le> \<lfloor>y\<rfloor>" .
    then show ?thesis using False True by (simp add: trunc_toward_zero_def)
  next
    case y: False
    with False assms show ?thesis by (simp add: trunc_toward_zero_def ceiling_mono)
  qed
qed

lemma trunc_toward_zero_of_int: "trunc_toward_zero (of_int k) = k"
  by (simp add: trunc_toward_zero_def)

lemma pow2_pos: "0 < pow2 e"
  by (simp add: pow2_def)

lemma pow2_add: "pow2 (a + b) = pow2 a * pow2 b"
proof -
  have "pow2 e = 2 powr (of_int e)" for e
    by (simp add: pow2_def powr_realpow [symmetric] powr_minus divide_inverse)
  then show ?thesis by (simp add: powr_add)
qed

lemma pow2_mono: "a \<le> b \<Longrightarrow> pow2 a \<le> pow2 b"
proof -
  have "pow2 e = 2 powr (of_int e)" for e
    by (simp add: pow2_def powr_realpow [symmetric] powr_minus divide_inverse)
  then show "a \<le> b \<Longrightarrow> pow2 a \<le> pow2 b" by simp
qed

lemma pow2_less_cancel: "pow2 a < pow2 b \<Longrightarrow> a < b"
  using pow2_mono [of b a] by (cases "a < b") simp_all

lemma round_half_even_bounds: "\<lfloor>x\<rfloor> \<le> round_half_even x \<and> round_half_even x \<le> \<lfloor>x\<rfloor> + 1"
  by (simp add: round_half_even_def Let_def)

lemma round_half_even_of_int: "round_half_even (of_int k) = k"
  by (simp add: round_half_even_def Let_def)

lemma round_half_even_mono:
  assumes "x \<le> y"
  shows "round_half_even x \<le> round_half_even y"
proof (cases "\<lfloor>x\<rfloor> = \<lfloor>y\<rfloor>")
  case True
  with assms have "x - of_int \<lfloor>x\<rfloor> \<le> y - of_int \<lfloor>x\<rfloor>" by simp
  with True show ?thesis by (auto simp add: round_half_even_def Let_def)
next
  case False
  with assms have "\<lfloor>x\<rfloor> + 1 \<le> \<lfloor>y\<rfloor>" using floor_mono [OF assms] by linarith
  with round_half_even_bounds [of x] round_half_even_bounds [of y] show ?thesis by linarith
qed

lemma binary32_exponent_ge: "- 126 \<le> binary32_exponent x"
  by (simp add: binary32_exponent_def)

lemma binary32_exponent_mono:
  assumes "\<bar>x\<bar> \<le> \<bar>y\<bar>"
  shows "binary32_exponent x \<le> binary32_exponent y"
proof -
  have "\<lfloor>\<bar>x\<bar> * 2 ^ 126\<rfloor> \<le> \<lfloor>\<bar>y\<bar> * 2 ^ 126\<rfloor>"
    using assms by (intro floor_mono mult_right_mono) simp_all
  then have "bitlen \<lfloor>\<bar>x\<bar> * 2 ^ 126\<rfloor> \<le> bitlen \<lfloor>\<bar>y\<bar> * 2 ^ 126\<rfloor>"
    by (simp add: bitlen_def floorlog_mono nat_mono)
  then show ?thesis by (simp add: binary32_exponent_def)
qed

lemma binary32_exponent_upper: "\<bar>x\<bar> < pow2 (binary32_exponent x + 1)"
proof -
  let ?m = "\<lfloor>\<bar>x\<bar> * 2 ^ 126\<rfloor>"
  let ?e = "binary32_exponent x"
  have e: "bitlen ?m - 127 \<le> ?e" by (simp add: binary32_exponent_def)
  have "?m < 2 ^ nat (bitlen ?m)"
  proof (cases "0 < ?m")
    case True
    then show ?thesis using bitlen_bounds [of ?m] by simp
  next
    case False
    then have "?m \<le> 0" by simp
    also have "(0::int) < 2 ^ nat (bitlen ?m)" by simp
    finally show ?thesis .
  qed
  also have "(2::int) ^ nat (bitlen ?m) \<le> 2 ^ nat (?e + 127)"
    using e by (intro power_increasing) simp_all
  finally have "?m < 2 ^ nat (?e + 127)" .
  then have "\<bar>x\<bar> * 2 ^ 126 < of_int (2 ^ nat (?e + 127))"
    by (simp only: floor_less_iff)
  also have "real_of_int (2 ^ nat (?e + 127)) = pow2 (?e + 127)"
    using binary32_exponent_ge [of x] by (simp add: pow2_def)
  also have "pow2 (?e + 127) = pow2 (?e + 1) * pow2 126"
    using pow2_add [of "?e + 1" 126] by (simp add: add.commute add.left_commute)
  also have "pow2 126 = 2 ^ 126" by (simp add: pow2_def)
  finally show ?thesis by simp
qed

lemma binary32_exponent_lower:
  assumes "- 126 < binary32_exponent x"
  shows "pow2 (binary32_exponent x) \<le> \<bar>x\<bar>"
proof -
  let ?m = "\<lfloor>\<bar>x\<bar> * 2 ^ 126\<rfloor>"
  let ?e = "binary32_exponent x"
  have e: "?e = bitlen ?m - 127" using assms by (simp add: binary32_exponent_def max_def split: if_splits)
  with assms have "0 < bitlen ?m" by simp
  then have pos: "0 < ?m" using bitlen_eq_zero_iff [of ?m] by (cases "0 < ?m") simp_all
  have "2 ^ nat (bitlen ?m - 1) \<le> ?m" using bitlen_bounds [OF pos] by simp
  then have "real_of_int (2 ^ nat (bitlen ?m - 1)) \<le> \<bar>x\<bar> * 2 ^ 126"
    by (simp only: le_floor_iff)
  moreover have "real_of_int (2 ^ nat (bitlen ?m - 1)) = pow2 (?e + 126)"
    using e assms by (simp add: pow2_def)
  moreover have "pow2 (?e + 126) = pow2 ?e * pow2 126" by (rule pow2_add)
  moreover have "pow2 126 = 2 ^ 126" by (simp add: pow2_def)
  ultimately show ?thesis by simp
qed

lemma binary32_exponent_eqI:
  assumes lo: "pow2 e \<le> \<bar>x\<bar>" and hi: "\<bar>x\<bar> < pow2 (e + 1)" and e: "- 126 \<le> e"
  shows "binary32_exponent x = e"
proof -
  let ?e = "binary32_exponent x"
  have "pow2 e < pow2 (?e + 1)" using lo binary32_exponent_upper [of x] by simp
  then have le: "e \<le> ?e" using pow2_less_cancel [of e "?e + 1"] by simp
  have "?e \<le> e"
  proof (cases "- 126 < ?e")
    case True
    then have "pow2 ?e < pow2 (e + 1)" using binary32_exponent_lower [of x] hi by simp
    then show ?thesis using pow2_less_cancel [of ?e "e + 1"] by simp
  next
    case False
    then show ?thesis using e by simp
  qed
  with le show ?thesis by simp
qed

lemma round_binary32_in_binade:
  assumes "pow2 e \<le> \<bar>x\<bar>" and "\<bar>x\<bar> < pow2 (e + 1)" and "- 126 \<le> e"
  shows "round_binary32 x =
         sgn x * (of_int (round_half_even (\<bar>x\<bar> / pow2 (e - 23))) * pow2 (e - 23))"
  using binary32_exponent_eqI [OF assms] by (simp add: round_binary32_def Let_def)

lemma round_binary32_zero: "round_binary32 0 = 0"
  by (simp add: round_binary32_def)

lemma round_binary32_minus: "round_binary32 (- x) = - round_binary32 x"
proof -
  have "binary32_exponent (- x) = binary32_exponent x" by (simp add: binary32_exponent_def)
  then show ?thesis by (simp add: round_binary32_def Let_def)
qed

lemma round_binary32_nonneg:
  assumes "0 \<le> x"
  shows "0 \<le> round_binary32 x"
proof -
  have "0 \<le> \<bar>x\<bar> / pow2 (binary32_exponent x - 23)"
    using pow2_pos [of "binary32_exponent x - 23"] by (simp add: less_imp_le)
  then have "0 \<le> round_half_even (\<bar>x\<bar> / pow2 (binary32_exponent x - 23))"
    using round_half_even_mono [of 0 "\<bar>x\<bar> / pow2 (binary32_exponent x - 23)"]
      round_half_even_of_int [of 0] by simp
  then show ?thesis
    using assms pow2_pos [of "binary32_exponent x - 23"]
    by (simp add: round_binary32_def Let_def sgn_if)
qed

lemma round_binary32_pos_eq:
  assumes "0 < x"
  shows "round_binary32 x =
         of_int (round_half_even (x / pow2 (binary32_exponent x - 23))) *
         pow2 (binary32_exponent x - 23)"
  using assms by (simp add: round_binary32_def Let_def)

lemma round_binary32_upper:
  assumes "0 < x"
  shows "round_binary32 x \<le> pow2 (binary32_exponent x + 1)"
proof -
  let ?e = "binary32_exponent x"
  let ?p = "pow2 (?e - 23)"
  have split: "pow2 (?e + 1) = pow2 24 * ?p" using pow2_add [of 24 "?e - 23"] by (simp add: algebra_simps)
  have "x \<le> pow2 24 * ?p" using binary32_exponent_upper [of x] assms split by simp
  then have "x / ?p \<le> pow2 24" using pow2_pos [of "?e - 23"] by (simp add: pos_divide_le_eq)
  also have "pow2 24 = of_int (2 ^ 24)" by (simp add: pow2_def)
  finally have "round_half_even (x / ?p) \<le> round_half_even (of_int (2 ^ 24))"
    by (rule round_half_even_mono)
  then have "round_half_even (x / ?p) \<le> 2 ^ 24" by (simp only: round_half_even_of_int)
  then have "real_of_int (round_half_even (x / ?p)) \<le> pow2 24"
    by (simp add: pow2_def)
  then have "real_of_int (round_half_even (x / ?p)) * ?p \<le> pow2 24 * ?p"
    using pow2_pos [of "?e - 23"] by (intro mult_right_mono) simp_all
  then show ?thesis using split round_binary32_pos_eq [OF assms] by simp
qed

lemma round_binary32_lower:
  assumes "0 < x" and "- 126 < binary32_exponent x"
  shows "pow2 (binary32_exponent x) \<le> round_binary32 x"
proof -
  let ?e = "binary32_exponent x"
  let ?p = "pow2 (?e - 23)"
  have split: "pow2 ?e = pow2 23 * ?p" using pow2_add [of 23 "?e - 23"] by (simp add: algebra_simps)
  have "pow2 23 * ?p \<le> x" using binary32_exponent_lower [OF assms(2)] assms(1) split by simp
  then have "pow2 23 \<le> x / ?p" using pow2_pos [of "?e - 23"] by (simp add: pos_le_divide_eq)
  moreover have "pow2 23 = of_int (2 ^ 23)" by (simp add: pow2_def)
  ultimately have "of_int (2 ^ 23) \<le> x / ?p" by simp
  then have "round_half_even (of_int (2 ^ 23)) \<le> round_half_even (x / ?p)"
    by (rule round_half_even_mono)
  then have "2 ^ 23 \<le> round_half_even (x / ?p)" by (simp only: round_half_even_of_int)
  then have "pow2 23 \<le> real_of_int (round_half_even (x / ?p))"
    by (simp add: pow2_def)
  then have "pow2 23 * ?p \<le> real_of_int (round_half_even (x / ?p)) * ?p"
    using pow2_pos [of "?e - 23"] by (intro mult_right_mono) simp_all
  then show ?thesis using split round_binary32_pos_eq [OF assms(1)] by simp
qed

lemma round_binary32_mono_pos:
  assumes "0 < x" and "x \<le> y"
  shows "round_binary32 x \<le> round_binary32 y"
proof -
  let ?ex = "binary32_exponent x" and ?ey = "binary32_exponent y"
  have y: "0 < y" using assms by simp
  have le: "?ex \<le> ?ey" using assms by (intro binary32_exponent_mono) simp
  show ?thesis
  proof (cases "?ex = ?ey")
    case True
    let ?p = "pow2 (?ex - 23)"
    have "x / ?p \<le> y / ?p" using assms(2) pow2_pos [of "?ex - 23"] by (simp add: divide_right_mono)
    then have "round_half_even (x / ?p) \<le> round_half_even (y / ?p)"
      by (rule round_half_even_mono)
    then have "real_of_int (round_half_even (x / ?p)) * ?p \<le>
               real_of_int (round_half_even (y / ?p)) * ?p"
      using pow2_pos [of "?ex - 23"] by (intro mult_right_mono) simp_all
    then show ?thesis
      using round_binary32_pos_eq [OF assms(1)] round_binary32_pos_eq [OF y] True by simp
  next
    case False
    with le have lt: "?ex + 1 \<le> ?ey" by simp
    then have "- 126 < ?ey" using binary32_exponent_ge [of x] by simp
    then have "pow2 ?ey \<le> round_binary32 y" using y by (intro round_binary32_lower)
    moreover have "round_binary32 x \<le> pow2 (?ex + 1)" using assms(1) by (rule round_binary32_upper)
    moreover have "pow2 (?ex + 1) \<le> pow2 ?ey" using lt by (rule pow2_mono)
    ultimately show ?thesis by simp
  qed
qed

lemma round_binary32_mono:
  assumes "x \<le> y"
  shows "round_binary32 x \<le> round_binary32 y"
proof -
  consider "0 < x" | "x \<le> 0" "0 \<le> y" | "y < 0" by linarith
  then show ?thesis
  proof cases
    case 1
    then show ?thesis using assms by (rule round_binary32_mono_pos)
  next
    case 2
    have "0 \<le> round_binary32 (- x)" using 2(1) by (intro round_binary32_nonneg) simp
    then have "round_binary32 x \<le> 0" by (simp add: round_binary32_minus)
    also have "0 \<le> round_binary32 y" using 2(2) by (rule round_binary32_nonneg)
    finally show ?thesis .
  next
    case 3
    then have "round_binary32 (- y) \<le> round_binary32 (- x)"
      using assms by (intro round_binary32_mono_pos) simp_all
    then show ?thesis by (simp add: round_binary32_minus)
  qed
qed

lemma round_binary32_of_nat_int:
  assumes "0 < k" and "k < 2 ^ 24"
  shows "round_binary32 (of_int k) = of_int k"
proof -
  let ?x = "real_of_int k"
  let ?e = "binary32_exponent ?x"
  have x: "0 < ?x" using assms(1) by simp
  have "?e \<le> 23"
  proof (cases "- 126 < ?e")
    case True
    then have "pow2 ?e \<le> \<bar>?x\<bar>" by (rule binary32_exponent_lower)
    also have "\<bar>?x\<bar> < pow2 24" using assms by (simp add: pow2_def)
    finally show ?thesis using pow2_less_cancel [of ?e 24] by simp
  next
    case False
    then show ?thesis by simp
  qed
  then obtain n where n: "?e - 23 = - int n" by (metis diff_le_0_iff_le nonpos_int_cases)
  then have p: "pow2 (?e - 23) = 1 / 2 ^ n" by (simp add: pow2_def)
  have "?x / pow2 (?e - 23) = of_int (k * 2 ^ n)" by (simp add: p)
  then have "round_half_even (?x / pow2 (?e - 23)) = k * 2 ^ n"
    by (simp only: round_half_even_of_int)
  then show ?thesis using round_binary32_pos_eq [OF x] by (simp add: p)
qed

lemma round_binary32_of_int:
  assumes "\<bar>k\<bar> < 2 ^ 24"
  shows "round_binary32 (of_int k) = of_int k"
proof -
  consider "0 < k" | "k = 0" | "k < 0" by linarith
  then show ?thesis
  proof cases
    case 1
    then show ?thesis using assms by (intro round_binary32_of_nat_int) simp_all
  next
    case 2
    then show ?thesis by (simp add: round_binary32_zero)
  next
    case 3
    then have "round_binary32 (of_int (- k)) = of_int (- k)"
      using assms by (intro round_binary32_of_nat_int) simp_all
    then show ?thesis by (simp add: round_binary32_minus)
  qed
qed

lemma float_0_707_bounds: "707 / 1000 \<le> float_0_707 \<and> float_0_707 \<le> 1"
  by (simp add: float_0_707_def)

lemma float_mul_scaled_bounds:
  fixes k :: int and f :: real
  assumes k: "- 32768 \<le> k" "k < 32768" and f: "0 \<le> f" "f \<le> 1"
  shows "- 32768 \<le> float_mul (real_of_int k) f \<and> float_mul (real_of_int k) f \<le> 32767"
proof -
  have up: "real_of_int k * f \<le> real_of_int 32767"
  proof (cases "0 \<le> k")
    case True
    then have "real_of_int k * f \<le> real_of_int k * 1" using f by (intro mult_left_mono) simp_all
    with k show ?thesis by simp
  next
    case False
    then have "real_of_int k * f \<le> 0" using f by (simp add: mult_le_0_iff)
    then show ?thesis by simp
  qed
  have lo: "real_of_int (- 32768) \<le> real_of_int k * f"
  proof (cases "0 \<le> k")
    case True
    then have "0 \<le> real_of_int k * f" using f by simp
    then show ?thesis by simp
  next
    case False
    then have "real_of_int k * 1 \<le> real_of_int k * f" using f by (intro mult_left_mono_neg) simp_all
    with k show ?thesis by simp
  qed
  have "round_binary32 (real_of_int k * f) \<le> round_binary32 (real_of_int 32767)"
    using up by (rule round_binary32_mono)
  moreover have "round_binary32 (real_of_int (- 32768)) \<le> round_binary32 (real_of_int k * f)"
    using lo by (rule round_binary32_mono)
  moreover have "round_binary32 (real_of_int 32767) = real_of_int 32767"
    by (rule round_binary32_of_int) simp
  moreover have "round_binary32 (real_of_int (- 32768)) = real_of_int (- 32768)"
    by (rule round_binary32_of_int) simp
  ultimately show ?thesis by (simp add: float_mul_def)
qed

lemma tilt_product_in_range:
  assumes "c_z \<le> 1"
  shows "- 32768 \<le> trunc_toward_zero
           (float_mul (real_of_int (sint (d :: 16 word))) (max float_0_707 c_z)) \<and>
         trunc_toward_zero
           (float_mul (real_of_int (sint d)) (max float_0_707 c_z)) < 32768"
proof -
  let ?p = "float_mul (real_of_int (sint d)) (max float_0_707 c_z)"
  have "- 32768 \<le> ?p \<and> ?p \<le> 32767"
  proof (rule float_mul_scaled_bounds)
    show "- 32768 \<le> sint d" and "sint d < 32768" using sint16_bounds [of d] by simp_all
    show "0 \<le> max float_0_707 c_z" by (simp add: float_0_707_def max_def)
    show "max float_0_707 c_z \<le> 1" using assms float_0_707_bounds by simp
  qed
  then have lo: "real_of_int (- 32768) \<le> ?p" and hi: "?p \<le> real_of_int 32767" by simp_all
  have "trunc_toward_zero (real_of_int (- 32768)) \<le> trunc_toward_zero ?p"
    using lo by (rule trunc_toward_zero_mono)
  moreover have "trunc_toward_zero ?p \<le> trunc_toward_zero (real_of_int 32767)"
    using hi by (rule trunc_toward_zero_mono)
  ultimately show ?thesis by (simp only: trunc_toward_zero_of_int) simp
qed

lemma sint_tilt_correction:
  assumes "RANGEFINDER_TILT_CORRECTION cfg" and "c_z \<le> 1"
  shows "sint (tilt_correction cfg d c_z) =
     trunc_toward_zero (float_mul (real_of_int (sint d)) (max float_0_707 c_z))"
proof -
  have "sint (float_to_int16 (float_mul (real_of_int (sint d)) (max float_0_707 c_z))) =
        trunc_toward_zero (float_mul (real_of_int (sint d)) (max float_0_707 c_z))"
    unfolding float_to_int16_def
    using tilt_product_in_range [OF assms(2), of d] by (intro sint16_word_of_int) simp_all
  with assms(1) show ?thesis by (simp add: tilt_correction_def)
qed

lemma tilt_correction_zero: "tilt_correction cfg 0 c_z = 0"
  by (simp add: tilt_correction_def float_to_int16_def float_mul_def round_binary32_zero
      trunc_toward_zero_def)

lemma tilt_correction_level: "tilt_correction cfg d 1 = d"
proof -
  have "\<bar>sint d\<bar> < 2 ^ 24" using sint16_bounds [of d] by (simp add: abs_less_iff)
  then have "round_binary32 (real_of_int (sint d)) = real_of_int (sint d)"
    by (rule round_binary32_of_int)
  moreover have "max float_0_707 1 = 1" using float_0_707_bounds by simp
  ultimately have "float_mul (real_of_int (sint d)) (max float_0_707 1) = real_of_int (sint d)"
    by (simp add: float_mul_def)
  then have "float_to_int16 (float_mul (real_of_int (sint d)) (max float_0_707 1)) = d"
    by (simp only: float_to_int16_def trunc_toward_zero_of_int) simp
  then show ?thesis by (simp add: tilt_correction_def)
qed

subsection \<open>The health evaluation\<close>

text \<open>
  Claim C2. With the rangefinder compiled in, every cycle of \<open>read_rangefinder\<close> sets
  \<open>alt_healthy\<close> to true exactly when the status is Good, the count of valid samples
  is at least \<open>RANGEFINDER_HEALTH_MAX\<close> and the signal quality is -1 or above 90. So
  with a Good status and enough valid samples every quality in {-1} or (90, 100] gives
  a healthy sample, and every quality of at most 90 other than -1 an unhealthy one.
\<close>

theorem alt_healthy_iff:
  assumes "RANGEFINDER_ENABLED cfg"
  shows "alt_healthy (fst (read_rangefinder cfg inp s)) =
           (status_orient (rangefinder inp) = Good \<and>
            RANGEFINDER_HEALTH_MAX cfg \<le> range_valid_count_orient (rangefinder inp) \<and>
            (signal_quality_pct (rangefinder inp) = - 1 \<or>
             90 < signal_quality_pct (rangefinder inp)))
       \<and> (status_orient (rangefinder inp) = Good \<and>
            RANGEFINDER_HEALTH_MAX cfg \<le> range_valid_count_orient (rangefinder inp) \<and>
            (signal_quality_pct (rangefinder inp) = - 1 \<or>
             (90 < signal_quality_pct (rangefinder inp) \<and>
              signal_quality_pct (rangefinder inp) \<le> 100))
            \<longrightarrow> alt_healthy (fst (read_rangefinder cfg inp s)))
       \<and> (signal_quality_pct (rangefinder inp) \<le> 90 \<and>
            signal_quality_pct (rangefinder inp) \<noteq> - 1
            \<longrightarrow> \<not> alt_healthy (fst (read_rangefinder cfg inp s)))"
  using assms by (auto simp add: rr_alt_healthy health_evaluation_iff)

text \<open>
  The two scenarios of the spec: quality 95 is healthy, quality 50 is not.
\<close>

theorem alt_healthy_iff_witness:
  "RANGEFINDER_ENABLED example_config
   \<and> status_orient (rangefinder example_inputs) = Good
   \<and> RANGEFINDER_HEALTH_MAX example_config \<le> range_valid_count_orient (rangefinder example_inputs)
   \<and> 90 < signal_quality_pct (rangefinder example_inputs)
   \<and> signal_quality_pct (rangefinder example_inputs) \<le> 100
   \<and> alt_healthy (fst (read_rangefinder example_config example_inputs example_state))
   \<and> signal_quality_pct (rangefinder
        (example_inputs\<lparr>rangefinder := example_rangefinder\<lparr>signal_quality_pct := 50\<rparr>\<rparr>)) \<le> 90
   \<and> signal_quality_pct (rangefinder
        (example_inputs\<lparr>rangefinder := example_rangefinder\<lparr>signal_quality_pct := 50\<rparr>\<rparr>)) \<noteq> - 1
   \<and> \<not> alt_healthy (fst (read_rangefinder example_config
        (example_inputs\<lparr>rangefinder := example_rangefinder\<lparr>signal_quality_pct := 50\<rparr>\<rparr>)
        example_state))"
  using alt_healthy_iff [of example_config example_inputs example_state]
    alt_healthy_iff [of example_config
      "example_inputs\<lparr>rangefinder := example_rangefinder\<lparr>signal_quality_pct := 50\<rparr>\<rparr>" example_state]
  by (simp add: example_config_def example_rangefinder_def example_inputs_def example_state_def)

subsection \<open>The validity gate\<close>

text \<open>
  Claim C6. For every state and every clock value, \<open>rangefinder_alt_ok\<close> returns
  enabled and alt_healthy and (now - last_healthy_ms) < RANGEFINDER_TIMEOUT_MS, the
  subtraction being the one of \<^verbatim>\<open>uint32_t\<close>; it is false whenever that difference is
  at least the timeout, whatever \<open>alt_healthy\<close> is. While the clock has not passed
  below the timestamp, the 32-bit comparison is the comparison of the elapsed
  milliseconds as integers.
\<close>

theorem rangefinder_alt_ok_spec:
  "rangefinder_alt_ok cfg now s =
     (enabled s \<and> alt_healthy s \<and> now - last_healthy_ms s < RANGEFINDER_TIMEOUT_MS cfg)
   \<and> (RANGEFINDER_TIMEOUT_MS cfg \<le> now - last_healthy_ms s \<longrightarrow> \<not> rangefinder_alt_ok cfg now s)
   \<and> (last_healthy_ms s \<le> now \<longrightarrow>
        (now - last_healthy_ms s < RANGEFINDER_TIMEOUT_MS cfg) =
        (uint now - uint (last_healthy_ms s) < uint (RANGEFINDER_TIMEOUT_MS cfg)))"
  by (auto simp add: rangefinder_alt_ok_def word_less_def uint_sub_if' word_le_def)

text \<open>
  A healthy, enabled state last refreshed at 1000 ms: usable at 1999 ms, not at 2000 ms.
\<close>

theorem rangefinder_alt_ok_spec_witness:
  "RANGEFINDER_TIMEOUT_MS example_config \<le> 2000 - last_healthy_ms (example_state\<lparr>alt_healthy := True\<rparr>)
   \<and> last_healthy_ms (example_state\<lparr>alt_healthy := True\<rparr>) \<le> 2000
   \<and> enabled (example_state\<lparr>alt_healthy := True\<rparr>)
   \<and> alt_healthy (example_state\<lparr>alt_healthy := True\<rparr>)
   \<and> \<not> rangefinder_alt_ok example_config 2000 (example_state\<lparr>alt_healthy := True\<rparr>)
   \<and> rangefinder_alt_ok example_config 1999 (example_state\<lparr>alt_healthy := True\<rparr>)"
  using rangefinder_alt_ok_spec [of example_config 2000 "example_state\<lparr>alt_healthy := True\<rparr>"]
    rangefinder_alt_ok_spec [of example_config 1999 "example_state\<lparr>alt_healthy := True\<rparr>"]
  by (simp add: example_config_def example_rangefinder_def example_inputs_def example_state_def)

subsection \<open>The filter\<close>

text \<open>
  Claim C3. Whenever the time since \<open>last_healthy_ms\<close> (the \<^verbatim>\<open>uint32_t\<close> difference
  \<open>now - last_healthy_ms\<close>) strictly exceeds \<open>RANGEFINDER_TIMEOUT_MS\<close>, a cycle with a
  healthy sample leaves the filter's value exactly equal to that cycle's tilt-corrected
  sample \<open>alt_cm\<close>: the filter is reset and its history discarded, the old value does
  not enter the result.
\<close>

theorem filter_reset_after_timeout:
  assumes "alt_healthy (fst (read_rangefinder cfg inp s))"
    and "RANGEFINDER_TIMEOUT_MS cfg < millis inp - last_healthy_ms s"
  shows "lpf_get (alt_cm_filt (fst (read_rangefinder cfg inp s))) =
           real_of_int (sint (alt_cm (fst (read_rangefinder cfg inp s))))
       \<and> alt_cm (fst (read_rangefinder cfg inp s)) =
           tilt_correction cfg (distance_cm_orient (rangefinder inp))
             (rotation_body_to_ned_c_z inp)"
proof -
  have "RANGEFINDER_ENABLED cfg" using assms(1) by (rule rr_alt_healthy_compiled_in)
  then have "alt_cm (fst (read_rangefinder cfg inp s)) =
      tilt_correction cfg (distance_cm_orient (rangefinder inp)) (rotation_body_to_ned_c_z inp)"
    by (simp add: rr_distances)
  moreover have "alt_cm_filt (fst (read_rangefinder cfg inp s)) =
      lpf_reset (alt_cm_filt s) (real_of_int (sint (alt_cm (fst (read_rangefinder cfg inp s)))))"
    using rr_filter_healthy [OF assms(1)] assms(2) by simp
  then have "lpf_get (alt_cm_filt (fst (read_rangefinder cfg inp s))) =
      real_of_int (sint (alt_cm (fst (read_rangefinder cfg inp s))))"
    by (simp add: lpf_get_def lpf_reset_def)
  ultimately show ?thesis by simp
qed

text \<open>
  The spec's scenario: the timeout is 1000 ms, the last healthy sample is 2000 ms old,
  the filter holds 100 and the new healthy sample is 300 cm; the filter then holds 300.
\<close>

theorem filter_reset_after_timeout_witness:
  "alt_healthy (fst (read_rangefinder example_config
      (example_inputs\<lparr>rangefinder := example_rangefinder\<lparr>distance_cm_orient := 300\<rparr>\<rparr>)
      example_state))
   \<and> RANGEFINDER_TIMEOUT_MS example_config < millis example_inputs - last_healthy_ms example_state
   \<and> lpf_get (alt_cm_filt example_state) = 100
   \<and> lpf_get (alt_cm_filt (fst (read_rangefinder example_config
        (example_inputs\<lparr>rangefinder := example_rangefinder\<lparr>distance_cm_orient := 300\<rparr>\<rparr>)
        example_state))) = 300"
  using filter_reset_after_timeout [of example_config
      "example_inputs\<lparr>rangefinder := example_rangefinder\<lparr>distance_cm_orient := 300\<rparr>\<rparr>"
      example_state]
  by (simp add: example_config_def example_rangefinder_def example_inputs_def example_state_def read_rangefinder_def tilt_correction_level health_evaluation_def
        lpf_reset_def lpf_apply_def lpf_get_def Let_def)



text \<open>
  Claim C9. On every cycle on which \<open>alt_healthy\<close> comes out false,
  \<open>read_rangefinder\<close> leaves the filter \<open>alt_cm_filt\<close> and the timestamp
  \<open>last_healthy_ms\<close> as they were; the filter changes only on cycles on which
  \<open>alt_healthy\<close> is true.
\<close>

theorem unhealthy_cycle_keeps_filter:
  "(\<not> alt_healthy (fst (read_rangefinder cfg inp s)) \<longrightarrow>
      alt_cm_filt (fst (read_rangefinder cfg inp s)) = alt_cm_filt s \<and>
      last_healthy_ms (fst (read_rangefinder cfg inp s)) = last_healthy_ms s)
   \<and> (alt_cm_filt (fst (read_rangefinder cfg inp s)) \<noteq> alt_cm_filt s \<longrightarrow>
      alt_healthy (fst (read_rangefinder cfg inp s)))"
  using rr_unhealthy_frame [of cfg inp s] by blast

text \<open>
  A cycle with quality 50 keeps the filter at 100 and the timestamp at 1000; the cycle
  with quality 95 changes the filter and is healthy.
\<close>

theorem unhealthy_cycle_keeps_filter_witness:
  "\<not> alt_healthy (fst (read_rangefinder example_config
        (example_inputs\<lparr>rangefinder := example_rangefinder\<lparr>signal_quality_pct := 50\<rparr>\<rparr>)
        example_state))
   \<and> alt_cm_filt (fst (read_rangefinder example_config
        (example_inputs\<lparr>rangefinder := example_rangefinder\<lparr>signal_quality_pct := 50\<rparr>\<rparr>)
        example_state)) = \<lparr>lpf_output = 100, lpf_cutoff_freq = 1 / 4\<rparr>
   \<and> last_healthy_ms (fst (read_rangefinder example_config
        (example_inputs\<lparr>rangefinder := example_rangefinder\<lparr>signal_quality_pct := 50\<rparr>\<rparr>)
        example_state)) = 1000
   \<and> alt_cm_filt (fst (read_rangefinder example_config example_inputs example_state))
       \<noteq> alt_cm_filt example_state
   \<and> alt_healthy (fst (read_rangefinder example_config example_inputs example_state))"
  using unhealthy_cycle_keeps_filter [of example_config
      "example_inputs\<lparr>rangefinder := example_rangefinder\<lparr>signal_quality_pct := 50\<rparr>\<rparr>"
      example_state]
    unhealthy_cycle_keeps_filter [of example_config example_inputs example_state]
  by (simp add: example_config_def example_rangefinder_def example_inputs_def example_state_def read_rangefinder_def tilt_correction_level health_evaluation_def
        lpf_reset_def lpf_apply_def lpf_get_def Let_def)

subsection \<open>The distances stored in the state\<close>

text \<open>
  Claim C10. With the rangefinder compiled in, every call of \<open>read_rangefinder\<close>
  overwrites \<open>alt_cm\<close>, \<open>min_cm\<close> and \<open>max_cm\<close> with this cycle's tilt-corrected
  distance and the driver's two bounds, whether or not the sample is healthy: the
  values of the previous cycle are not kept on an unhealthy cycle.
\<close>

theorem read_rangefinder_overwrites_distances:
  assumes "RANGEFINDER_ENABLED cfg"
  shows "alt_cm (fst (read_rangefinder cfg inp s)) =
           tilt_correction cfg (distance_cm_orient (rangefinder inp))
             (rotation_body_to_ned_c_z inp)
       \<and> min_cm (fst (read_rangefinder cfg inp s)) = min_distance_cm_orient (rangefinder inp)
       \<and> max_cm (fst (read_rangefinder cfg inp s)) = max_distance_cm_orient (rangefinder inp)"
  using assms by (rule rr_distances)

text \<open>
  An unhealthy cycle (status NoData) on a state holding 123, 1 and 2 leaves 500, 20
  and 5000.
\<close>

theorem read_rangefinder_overwrites_distances_witness:
  "RANGEFINDER_ENABLED example_config
   \<and> \<not> alt_healthy (fst (read_rangefinder example_config
        (example_inputs\<lparr>rangefinder := example_rangefinder\<lparr>status_orient := NoData\<rparr>\<rparr>)
        (example_state\<lparr>alt_cm := 123, min_cm := 1, max_cm := 2\<rparr>)))
   \<and> alt_cm (fst (read_rangefinder example_config
        (example_inputs\<lparr>rangefinder := example_rangefinder\<lparr>status_orient := NoData\<rparr>\<rparr>)
        (example_state\<lparr>alt_cm := 123, min_cm := 1, max_cm := 2\<rparr>))) = 500
   \<and> min_cm (fst (read_rangefinder example_config
        (example_inputs\<lparr>rangefinder := example_rangefinder\<lparr>status_orient := NoData\<rparr>\<rparr>)
        (example_state\<lparr>alt_cm := 123, min_cm := 1, max_cm := 2\<rparr>))) = 20
   \<and> max_cm (fst (read_rangefinder example_config
        (example_inputs\<lparr>rangefinder := example_rangefinder\<lparr>status_orient := NoData\<rparr>\<rparr>)
        (example_state\<lparr>alt_cm := 123, min_cm := 1, max_cm := 2\<rparr>))) = 5000"
  using read_rangefinder_overwrites_distances [of example_config
      "example_inputs\<lparr>rangefinder := example_rangefinder\<lparr>status_orient := NoData\<rparr>\<rparr>"
      "example_state\<lparr>alt_cm := 123, min_cm := 1, max_cm := 2\<rparr>"]
  by (simp add: example_config_def example_rangefinder_def example_inputs_def example_state_def read_rangefinder_def tilt_correction_level health_evaluation_def
        lpf_reset_def lpf_apply_def lpf_get_def Let_def)

subsection \<open>A disabled rangefinder\<close>

text \<open>
  Against claim C1 as stated: with the rangefinder compiled in, a state whose
  \<open>enabled\<close> flag is false and a driver that reports 500 cm, status Good, ten valid
  samples and quality 95 give \<open>alt_healthy\<close> true and \<open>alt_cm\<close> 500.
\<close>

theorem disabled_healthy_counterexample:
  "\<not> enabled (example_state\<lparr>enabled := False\<rparr>)
   \<and> alt_healthy (fst (read_rangefinder example_config example_inputs
        (example_state\<lparr>enabled := False\<rparr>)))
   \<and> alt_cm (fst (read_rangefinder example_config example_inputs
        (example_state\<lparr>enabled := False\<rparr>))) = 500"
  by (simp add: example_config_def example_rangefinder_def example_inputs_def example_state_def read_rangefinder_def tilt_correction_level health_evaluation_def
        lpf_reset_def lpf_apply_def lpf_get_def Let_def)

text \<open>
  Claim C1, amended. With the rangefinder compiled out, \<open>read_rangefinder\<close> leaves
  \<open>enabled\<close> false, \<open>alt_healthy\<close> false and \<open>alt_cm\<close> 0 for every input and state.
  With it compiled in and \<open>enabled\<close> false, the flag stays false and
  \<open>rangefinder_alt_ok\<close> is false after the cycle at every clock value, \<open>alt_healthy\<close>
  is the cycle's health evaluation and \<open>alt_cm\<close> is the cycle's tilt-corrected
  distance; so \<open>alt_healthy\<close> is false whenever the driver's status is not Good, and
  \<open>alt_cm\<close> is 0 whenever the driver's distance is 0.
\<close>

theorem disabled_rangefinder_state:
  "(\<not> RANGEFINDER_ENABLED cfg \<longrightarrow>
      \<not> enabled (fst (read_rangefinder cfg inp s)) \<and>
      \<not> alt_healthy (fst (read_rangefinder cfg inp s)) \<and>
      alt_cm (fst (read_rangefinder cfg inp s)) = 0)
   \<and> (RANGEFINDER_ENABLED cfg \<and> \<not> enabled s \<longrightarrow>
      \<not> enabled (fst (read_rangefinder cfg inp s)) \<and>
      \<not> rangefinder_alt_ok cfg now (fst (read_rangefinder cfg inp s)) \<and>
      alt_healthy (fst (read_rangefinder cfg inp s)) = health_evaluation cfg (rangefinder inp) \<and>
      alt_cm (fst (read_rangefinder cfg inp s)) =
        tilt_correction cfg (distance_cm_orient (rangefinder inp)) (rotation_body_to_ned_c_z inp) \<and>
      (status_orient (rangefinder inp) \<noteq> Good \<longrightarrow>
         \<not> alt_healthy (fst (read_rangefinder cfg inp s))) \<and>
      (distance_cm_orient (rangefinder inp) = 0 \<longrightarrow>
         alt_cm (fst (read_rangefinder cfg inp s)) = 0))"
proof (cases "RANGEFINDER_ENABLED cfg")
  case True
  then show ?thesis
    by (simp add: rr_enabled rr_alt_healthy rr_distances rangefinder_alt_ok_def
        health_evaluation_iff tilt_correction_zero)
next
  case False
  then show ?thesis by (simp add: rr_compiled_out)
qed

text \<open>
  A build without the rangefinder, and a build with it where the state is disabled
  and the driver reports NoData and distance 0.
\<close>

theorem disabled_rangefinder_state_witness:
  "\<not> RANGEFINDER_ENABLED (example_config\<lparr>RANGEFINDER_ENABLED := False\<rparr>)
   \<and> \<not> alt_healthy (fst (read_rangefinder (example_config\<lparr>RANGEFINDER_ENABLED := False\<rparr>)
          example_inputs example_state))
   \<and> alt_cm (fst (read_rangefinder (example_config\<lparr>RANGEFINDER_ENABLED := False\<rparr>)
          example_inputs example_state)) = 0
   \<and> RANGEFINDER_ENABLED example_config
   \<and> \<not> enabled (example_state\<lparr>enabled := False\<rparr>)
   \<and> status_orient (rangefinder (example_inputs\<lparr>rangefinder :=
          example_rangefinder\<lparr>status_orient := NoData, distance_cm_orient := 0\<rparr>\<rparr>)) \<noteq> Good
   \<and> distance_cm_orient (rangefinder (example_inputs\<lparr>rangefinder :=
          example_rangefinder\<lparr>status_orient := NoData, distance_cm_orient := 0\<rparr>\<rparr>)) = 0
   \<and> \<not> alt_healthy (fst (read_rangefinder example_config
          (example_inputs\<lparr>rangefinder :=
             example_rangefinder\<lparr>status_orient := NoData, distance_cm_orient := 0\<rparr>\<rparr>)
          (example_state\<lparr>enabled := False\<rparr>)))
   \<and> alt_cm (fst (read_rangefinder example_config
          (example_inputs\<lparr>rangefinder :=
             example_rangefinder\<lparr>status_orient := NoData, distance_cm_orient := 0\<rparr>\<rparr>)
          (example_state\<lparr>enabled := False\<rparr>))) = 0"
  using disabled_rangefinder_state [of "example_config\<lparr>RANGEFINDER_ENABLED := False\<rparr>"
      example_inputs example_state 0]
    disabled_rangefinder_state [of example_config
      "example_inputs\<lparr>rangefinder :=
         example_rangefinder\<lparr>status_orient := NoData, distance_cm_orient := 0\<rparr>\<rparr>"
      "example_state\<lparr>enabled := False\<rparr>" 0]
  by (simp add: example_config_def example_rangefinder_def example_inputs_def example_state_def read_rangefinder_def tilt_correction_level health_evaluation_def
        lpf_reset_def lpf_apply_def lpf_get_def Let_def)

text \<open>
  Against claim C8 as stated: with \<open>enabled\<close> false and a driver reporting a good
  sample, both navigation libraries receive (false, true, -1500): the health flag
  published is true.
\<close>

theorem disabled_publishes_healthy_counterexample:
  "\<not> enabled (example_state\<lparr>enabled := False\<rparr>)
   \<and> snd (read_rangefinder example_config example_inputs (example_state\<lparr>enabled := False\<rparr>)) =
       [Wp_nav_set_rangefinder_terrain_offset False True (- 1500),
        Circle_nav_set_rangefinder_terrain_offset False True (- 1500)]"
  by (simp add: example_config_def example_rangefinder_def example_inputs_def example_state_def read_rangefinder_def tilt_correction_level health_evaluation_def
        lpf_reset_def lpf_apply_def lpf_get_def Let_def)

text \<open>
  Claim C8, amended. \<open>read_rangefinder\<close> is a total function: it has no failure
  return. With the rangefinder compiled in and \<open>enabled\<close> false it publishes, first to
  the waypoint library and then to the circle library, the triple (false, h, offset),
  where h is this cycle's health evaluation and offset is the vertical position minus
  the filter's value after the cycle; when the sample is unhealthy the triple is
  (false, false, position minus the unchanged filter value). With the rangefinder
  compiled out nothing is published.
\<close>

theorem disabled_rangefinder_publishes:
  "(RANGEFINDER_ENABLED cfg \<and> \<not> enabled s \<longrightarrow>
      snd (read_rangefinder cfg inp s) =
        [Wp_nav_set_rangefinder_terrain_offset False
           (health_evaluation cfg (rangefinder inp))
           (position_z_up_cm inp - lpf_get (alt_cm_filt (fst (read_rangefinder cfg inp s)))),
         Circle_nav_set_rangefinder_terrain_offset False
           (health_evaluation cfg (rangefinder inp))
           (position_z_up_cm inp - lpf_get (alt_cm_filt (fst (read_rangefinder cfg inp s))))] \<and>
      (\<not> health_evaluation cfg (rangefinder inp) \<longrightarrow>
         snd (read_rangefinder cfg inp s) =
           [Wp_nav_set_rangefinder_terrain_offset False False
              (position_z_up_cm inp - lpf_get (alt_cm_filt s)),
            Circle_nav_set_rangefinder_terrain_offset False False
              (position_z_up_cm inp - lpf_get (alt_cm_filt s))]))
   \<and> (\<not> RANGEFINDER_ENABLED cfg \<longrightarrow> snd (read_rangefinder cfg inp s) = [])"
proof (cases "RANGEFINDER_ENABLED cfg")
  case True
  have "\<not> health_evaluation cfg (rangefinder inp) \<Longrightarrow>
        alt_cm_filt (fst (read_rangefinder cfg inp s)) = alt_cm_filt s"
    using rr_unhealthy_frame [of cfg inp s] True by (simp add: rr_alt_healthy)
  with True show ?thesis by (simp add: rr_published rr_alt_healthy)
next
  case False
  then show ?thesis by (simp add: rr_compiled_out)
qed

text \<open>
  A disabled state and a driver reporting NoData: both libraries receive
  (false, false, -1100); a build without the rangefinder publishes nothing.
\<close>

theorem disabled_rangefinder_publishes_witness:
  "RANGEFINDER_ENABLED example_config
   \<and> \<not> enabled (example_state\<lparr>enabled := False\<rparr>)
   \<and> \<not> health_evaluation example_config (rangefinder
          (example_inputs\<lparr>rangefinder := example_rangefinder\<lparr>status_orient := NoData\<rparr>\<rparr>))
   \<and> snd (read_rangefinder example_config
          (example_inputs\<lparr>rangefinder := example_rangefinder\<lparr>status_orient := NoData\<rparr>\<rparr>)
          (example_state\<lparr>enabled := False\<rparr>)) =
        [Wp_nav_set_rangefinder_terrain_offset False False (- 1100),
         Circle_nav_set_rangefinder_terrain_offset False False (- 1100)]
   \<and> \<not> RANGEFINDER_ENABLED (example_config\<lparr>RANGEFINDER_ENABLED := False\<rparr>)
   \<and> snd (read_rangefinder (example_config\<lparr>RANGEFINDER_ENABLED := False\<rparr>)
          example_inputs (example_state\<lparr>enabled := False\<rparr>)) = []"
  using disabled_rangefinder_publishes [of example_config
      "example_state\<lparr>enabled := False\<rparr>"
      "example_inputs\<lparr>rangefinder := example_rangefinder\<lparr>status_orient := NoData\<rparr>\<rparr>"]
    disabled_rangefinder_publishes [of "example_config\<lparr>RANGEFINDER_ENABLED := False\<rparr>"
      "example_state\<lparr>enabled := False\<rparr>" example_inputs]
  by (simp add: example_config_def example_rangefinder_def example_inputs_def example_state_def read_rangefinder_def tilt_correction_level health_evaluation_def
        lpf_reset_def lpf_apply_def lpf_get_def Let_def)

subsection \<open>Tilt correction\<close>

text \<open>
  The model on three inputs worked by hand in binary32: 500 cm at \<^verbatim>\<open>c.z\<close> = 0.9f
  (7549747 / 8388608) is stored as 450, since the product 449.99998... rounds to 450.0;
  24157 cm at the floor factor is stored as 17079; 500 cm at the floor factor is 353.
\<close>

lemma tilt_correction_binary32_examples:
  "sint (tilt_correction example_config 500 (7549747 / 8388608)) = 450
   \<and> sint (tilt_correction example_config 24157 (1 / 2)) = 17079
   \<and> sint (tilt_correction example_config 500 (1 / 2)) = 353"
  by (simp add: example_config_def tilt_correction_def float_to_int16_def trunc_toward_zero_def
      float_mul_def float_0_707_def round_binary32_def binary32_exponent_def compute_bitlen
      pow2_def round_half_even_def Let_def)

text \<open>
  Against claim C5 as stated: a raw distance of 100 cm at \<^verbatim>\<open>c.z\<close> = 0.5 is corrected to
  70, which is neither 100 * max(0.707, 0.5) = 70.7 nor at least 0.707 * 100; and a
  negative \<^verbatim>\<open>temp_alt\<close> of -100 gives -75 at \<^verbatim>\<open>c.z\<close> = 0.75 but -100 at \<^verbatim>\<open>c.z\<close> = 1.
\<close>

theorem tilt_correction_product_counterexample:
  "RANGEFINDER_TILT_CORRECTION example_config
   \<and> sint (tilt_correction example_config 100 (1 / 2)) = 70
   \<and> real_of_int (sint (tilt_correction example_config 100 (1 / 2)))
       \<noteq> real_of_int (sint (100 :: 16 word)) * max (707 / 1000) (1 / 2)
   \<and> real_of_int (sint (tilt_correction example_config 100 (1 / 2)))
       < 707 / 1000 * real_of_int (sint (100 :: 16 word))
   \<and> sint (tilt_correction example_config (- 100) (3 / 4)) = - 75
   \<and> sint (tilt_correction example_config (- 100) 1) = - 100"
  by (simp add: example_config_def tilt_correction_def float_to_int16_def trunc_toward_zero_def
      float_mul_def float_0_707_def round_binary32_def binary32_exponent_def compute_bitlen
      pow2_def round_half_even_def Let_def)

text \<open>
  Claim C5, amended. With tilt correction compiled in, the corrected value is the
  binary32 product of the raw distance and max(0.707f, c.z) with the fractional part
  dropped (rounded towards zero), whenever that integer fits \<^verbatim>\<open>int16_t\<close>, and in
  particular whenever \<^verbatim>\<open>c.z\<close> is at most 1. For \<^verbatim>\<open>c.z\<close> at most 1 and a raw distance that
  is not negative it is the floor of the exact product of the raw distance and
  max(0.707f, c.z) or that floor plus one; it is monotone non-decreasing in \<^verbatim>\<open>c.z\<close>, at
  least the floor of 0.707 times the raw distance, more than 0.707 times the raw
  distance minus 1, and at most the raw distance.
\<close>

theorem tilt_correction_truncates:
  assumes "RANGEFINDER_TILT_CORRECTION cfg"
  shows "(- 32768 \<le> trunc_toward_zero
             (float_mul (real_of_int (sint raw)) (max float_0_707 c_z)) \<and>
          trunc_toward_zero
             (float_mul (real_of_int (sint raw)) (max float_0_707 c_z)) < 32768 \<longrightarrow>
            sint (tilt_correction cfg raw c_z) =
              trunc_toward_zero (float_mul (real_of_int (sint raw)) (max float_0_707 c_z)))
       \<and> (c_z \<le> 1 \<longrightarrow>
            sint (tilt_correction cfg raw c_z) =
              trunc_toward_zero (float_mul (real_of_int (sint raw)) (max float_0_707 c_z)) \<and>
            (0 \<le> sint raw \<longrightarrow>
               \<lfloor>real_of_int (sint raw) * max float_0_707 c_z\<rfloor>
                 \<le> sint (tilt_correction cfg raw c_z) \<and>
               sint (tilt_correction cfg raw c_z)
                 \<le> \<lfloor>real_of_int (sint raw) * max float_0_707 c_z\<rfloor> + 1 \<and>
               (c_z' \<le> c_z \<longrightarrow>
                  sint (tilt_correction cfg raw c_z') \<le> sint (tilt_correction cfg raw c_z)) \<and>
               \<lfloor>707 / 1000 * real_of_int (sint raw)\<rfloor> \<le> sint (tilt_correction cfg raw c_z) \<and>
               707 / 1000 * real_of_int (sint raw) - 1
                 < real_of_int (sint (tilt_correction cfg raw c_z)) \<and>
               sint (tilt_correction cfg raw c_z) \<le> sint raw))"
proof -
  let ?r = "real_of_int (sint raw)"
  let ?f = "\<lambda>c. max float_0_707 c"
  have fits: "sint (tilt_correction cfg raw c_z) = trunc_toward_zero (float_mul ?r (?f c_z))"
    if "- 32768 \<le> trunc_toward_zero (float_mul ?r (?f c_z))"
      and "trunc_toward_zero (float_mul ?r (?f c_z)) < 32768"
  proof -
    have "sint (float_to_int16 (float_mul ?r (?f c_z))) =
          trunc_toward_zero (float_mul ?r (?f c_z))"
      unfolding float_to_int16_def using that by (rule sint16_word_of_int)
    with assms show ?thesis by (simp add: tilt_correction_def)
  qed
  have val: "sint (tilt_correction cfg raw c) = trunc_toward_zero (float_mul ?r (?f c))"
    if "c \<le> 1" for c
    using assms that by (rule sint_tilt_correction)
  have pos: "\<lfloor>?r * ?f c_z\<rfloor> \<le> sint (tilt_correction cfg raw c_z) \<and>
      sint (tilt_correction cfg raw c_z) \<le> \<lfloor>?r * ?f c_z\<rfloor> + 1 \<and>
      (c_z' \<le> c_z \<longrightarrow>
         sint (tilt_correction cfg raw c_z') \<le> sint (tilt_correction cfg raw c_z)) \<and>
      \<lfloor>707 / 1000 * ?r\<rfloor> \<le> sint (tilt_correction cfg raw c_z) \<and>
      707 / 1000 * ?r - 1 < real_of_int (sint (tilt_correction cfg raw c_z)) \<and>
      sint (tilt_correction cfg raw c_z) \<le> sint raw"
    if le1: "c_z \<le> 1" and nonneg: "0 \<le> sint raw"
  proof -
    have r0: "0 \<le> ?r" using nonneg by (simp only: of_int_0_le_iff)
    have rhi: "sint raw < 32768" using sint16_bounds [of raw] by simp
    have f1: "?f c_z \<le> 1" using le1 float_0_707_bounds by simp
    have p0: "0 \<le> ?r * ?f c_z"
      using r0 by (intro mult_nonneg_nonneg) (simp_all add: float_0_707_def max_def)
    have phi: "?r * ?f c_z \<le> ?r"
      using mult_left_mono [OF f1 r0] by (simp only: mult_1_right)
    \<comment> \<open>an integer below \<open>2 ^ 24\<close> is a binary32 number, and rounding is monotone\<close>
    have int_le: "of_int k \<le> float_mul ?r (?f c)" if "of_int k \<le> ?r * ?f c" "\<bar>k\<bar> < 2 ^ 24" for k c
      using round_binary32_mono [OF that(1)] round_binary32_of_int [OF that(2)]
      by (simp add: float_mul_def)
    have int_ge: "float_mul ?r (?f c) \<le> of_int k" if "?r * ?f c \<le> of_int k" "\<bar>k\<bar> < 2 ^ 24" for k c
      using round_binary32_mono [OF that(1)] round_binary32_of_int [OF that(2)]
      by (simp add: float_mul_def)
    have small: "\<bar>k\<bar> < 2 ^ 24" if "0 \<le> k" "k \<le> sint raw + 1" for k :: int
      using that rhi by simp
    have m0: "0 \<le> float_mul ?r (?f c_z)"
      using int_le [of 0 c_z] p0 by simp
    have fl: "sint (tilt_correction cfg raw c_z) = \<lfloor>float_mul ?r (?f c_z)\<rfloor>"
      using val [OF le1] m0 by (simp only: trunc_toward_zero_def if_True)
    have flo0: "0 \<le> \<lfloor>?r * ?f c_z\<rfloor>" using p0 by simp
    have flo1: "\<lfloor>?r * ?f c_z\<rfloor> \<le> sint raw" using phi by (simp add: floor_le_iff)
    have near_lo: "\<lfloor>?r * ?f c_z\<rfloor> \<le> sint (tilt_correction cfg raw c_z)"
    proof -
      have "\<bar>\<lfloor>?r * ?f c_z\<rfloor>\<bar> < 2 ^ 24" using flo0 flo1 by (intro small) simp_all
      moreover have "of_int \<lfloor>?r * ?f c_z\<rfloor> \<le> ?r * ?f c_z" by (rule of_int_floor_le)
      ultimately have "of_int \<lfloor>?r * ?f c_z\<rfloor> \<le> float_mul ?r (?f c_z)"
        by (intro int_le)
      then show ?thesis unfolding fl by (simp only: le_floor_iff)
    qed
    have near_hi: "sint (tilt_correction cfg raw c_z) \<le> \<lfloor>?r * ?f c_z\<rfloor> + 1"
    proof -
      have "\<bar>\<lfloor>?r * ?f c_z\<rfloor> + 1\<bar> < 2 ^ 24" using flo0 flo1 by (intro small) simp_all
      moreover have "?r * ?f c_z \<le> of_int (\<lfloor>?r * ?f c_z\<rfloor> + 1)" by linarith
      ultimately have "float_mul ?r (?f c_z) \<le> of_int (\<lfloor>?r * ?f c_z\<rfloor> + 1)"
        by (intro int_ge)
      then have "\<lfloor>float_mul ?r (?f c_z)\<rfloor> \<le> \<lfloor>real_of_int (\<lfloor>?r * ?f c_z\<rfloor> + 1)\<rfloor>"
        by (rule floor_mono)
      then show ?thesis unfolding fl by (simp only: floor_of_int)
    qed
    have mono: "sint (tilt_correction cfg raw c') \<le> sint (tilt_correction cfg raw c_z)"
      if "c' \<le> c_z" for c'
    proof -
      have "c' \<le> 1" using that le1 by simp
      moreover have "?r * ?f c' \<le> ?r * ?f c_z"
        using r0 that by (intro mult_left_mono) simp_all
      then have "float_mul ?r (?f c') \<le> float_mul ?r (?f c_z)"
        unfolding float_mul_def by (rule round_binary32_mono)
      ultimately show ?thesis
        using val [of c'] val [OF le1] by (simp only: trunc_toward_zero_mono)
    qed
    have lo: "707 / 1000 * ?r \<le> ?r * ?f c_z"
    proof -
      have "707 / 1000 \<le> float_0_707" using float_0_707_bounds by (rule conjunct1)
      also have "float_0_707 \<le> ?f c_z" by (rule max.cobounded1)
      finally have "707 / 1000 \<le> ?f c_z" .
      then have "?r * (707 / 1000) \<le> ?r * ?f c_z"
        using r0 by (intro mult_left_mono) simp_all
      then show ?thesis by (simp only: mult.commute)
    qed
    have "\<lfloor>707 / 1000 * ?r\<rfloor> \<le> \<lfloor>?r * ?f c_z\<rfloor>" using lo by (rule floor_mono)
    with near_lo have lo_floor: "\<lfloor>707 / 1000 * ?r\<rfloor> \<le> sint (tilt_correction cfg raw c_z)"
      by simp
    have "707 / 1000 * ?r - 1 < real_of_int \<lfloor>707 / 1000 * ?r\<rfloor>" by linarith
    also have "real_of_int \<lfloor>707 / 1000 * ?r\<rfloor> \<le> real_of_int (sint (tilt_correction cfg raw c_z))"
      using lo_floor by (simp only: of_int_le_iff)
    finally have lo_real: "707 / 1000 * ?r - 1 < real_of_int (sint (tilt_correction cfg raw c_z))" .
    have "\<bar>sint raw\<bar> < 2 ^ 24" using nonneg by (intro small) simp_all
    then have "float_mul ?r (?f c_z) \<le> of_int (sint raw)"
      using phi by (intro int_ge)
    then have "\<lfloor>float_mul ?r (?f c_z)\<rfloor> \<le> \<lfloor>real_of_int (sint raw)\<rfloor>" by (rule floor_mono)
    then have hi: "sint (tilt_correction cfg raw c_z) \<le> sint raw"
      unfolding fl by (simp only: floor_of_int)
    from near_lo near_hi mono lo_floor lo_real hi show ?thesis by blast
  qed
  from fits val [of c_z] pos show ?thesis by blast
qed

text \<open>
  100 cm at \<^verbatim>\<open>c.z\<close> = 0.5 gives 70, and \<^verbatim>\<open>c.z\<close> = 0.25 gives no more.
\<close>

theorem tilt_correction_truncates_witness:
  "RANGEFINDER_TILT_CORRECTION example_config
   \<and> - 32768 \<le> trunc_toward_zero
        (float_mul (real_of_int (sint (100 :: 16 word))) (max float_0_707 (1 / 2)))
   \<and> trunc_toward_zero
        (float_mul (real_of_int (sint (100 :: 16 word))) (max float_0_707 (1 / 2))) < 32768
   \<and> (1 / 2 :: real) \<le> 1
   \<and> 0 \<le> sint (100 :: 16 word)
   \<and> (1 / 4 :: real) \<le> 1 / 2
   \<and> sint (tilt_correction example_config 100 (1 / 2)) = 70
   \<and> sint (tilt_correction example_config 100 (1 / 4))
       \<le> sint (tilt_correction example_config 100 (1 / 2))"
  using tilt_correction_truncates [of example_config 100 "1 / 2" "1 / 4"]
  by (simp add: example_config_def trunc_toward_zero_def
      float_mul_def float_0_707_def round_binary32_def binary32_exponent_def compute_bitlen
      pow2_def round_half_even_def Let_def)

subsection \<open>The barometer\<close>

text \<open>
  Against claim C7 as stated: at an altitude of 0 the only call on the barometer is
  \<^verbatim>\<open>update()\<close>, and at an altitude of 150 \<^verbatim>\<open>update_calibration()\<close> is called.
\<close>

theorem calibration_trigger_counterexample:
  "get_altitude example_barometer = 0
   \<and> snd (read_barometer example_barometer example_baro_state) = [Baro_update]
   \<and> get_altitude (example_barometer\<lparr>get_altitude := 150\<rparr>) = 150
   \<and> snd (read_barometer (example_barometer\<lparr>get_altitude := 150\<rparr>) example_baro_state) =
       [Baro_update, Baro_update_calibration]"
  by (simp add: example_barometer_def example_baro_state_def read_barometer_def)

text \<open>
  Claim C7, amended. \<open>read_barometer\<close> calls the barometer's calibration routine
  exactly when the reported altitude is positive: at an altitude of 0 the calibration
  is not triggered, and at an altitude of 150 it is.
\<close>

theorem calibration_triggered_iff_positive:
  "(Baro_update_calibration \<in> set (snd (read_barometer barometer s))) = (0 < get_altitude barometer)
   \<and> snd (read_barometer (barometer\<lparr>get_altitude := 0\<rparr>) s) = [Baro_update]
   \<and> snd (read_barometer (barometer\<lparr>get_altitude := 150\<rparr>) s) =
       [Baro_update, Baro_update_calibration]"
  by (simp add: read_barometer_def Let_def)

end
